theory Spec2Isabelle
  imports Complex_Main "HOL-Library.Multiset"
begin

section \<open>Exceptions\<close>

text \<open>
  The exceptions that can leave a method of \<open>MRIModel\<close> (models/mri\_model.py).
  \<open>NotImplementedError\<close> stands for the three \<open>raise NotImplementedError\<close> statements of
  the module itself (lines 37, 44, 51).  \<open>ValueError\<close> and \<open>IndexError\<close> are raised inside
  the Python builtins and numpy operations the module calls (\<open>range\<close>, array indexing,
  \<open>min\<close>, \<open>np.stack\<close>, broadcasting, the truth value of an array).  \<open>External\<close> carries
  a failure of a collaborator that is not part of this file (the metric functions of
  \<open>common.evaluate\<close>).
\<close>

datatype error = NotImplementedError | ValueError | IndexError | External string

definition bindE :: "error + 'a \<Rightarrow> ('a \<Rightarrow> error + 'b) \<Rightarrow> error + 'b" where
  "bindE m f = (case m of Inl e \<Rightarrow> Inl e | Inr x \<Rightarrow> f x)"


section \<open>Hyperparameters and data loaders\<close>

text \<open>
  \<open>pathlib\<close> paths are kept symbolic: \<open>Div p s\<close> is the Python expression \<open>p / s\<close>.
  A sample rate is a Python value that is \<open>None\<close> or a float (idealised as a real).
\<close>

datatype path = Path string | Div path string

record hparams =
  data_path :: path
  challenge :: string
  sample_rate :: "real option"
  batch_size :: int
  exp_dir :: path
  exp' :: string

text \<open>
  The framework objects the module constructs are recorded as the constructor calls
  with their keyword arguments: \<open>SliceData(root, transform, sample_rate, challenge)\<close>,
  \<open>DistributedSampler(dataset)\<close> and
  \<open>DataLoader(dataset, batch_size, num_workers, pin_memory, sampler)\<close>.
\<close>

datatype 'tr SliceData =
  SliceData (sd_root: path) (transform: 'tr) (sd_sample_rate: "real option") (sd_challenge: string)

datatype 'tr DistributedSampler = DistributedSampler (sampled: "'tr SliceData")

datatype 'tr DataLoader =
  DataLoader (dataset: "'tr SliceData") (dl_batch_size: int) (num_workers: nat)
    (pin_memory: bool) (sampler: "'tr DistributedSampler")

text \<open>Python's truth value of a sample rate: \<open>None\<close> and \<open>0\<close> are falsy.\<close>

definition truthy :: "real option \<Rightarrow> bool" where
  "truthy r = (case r of None \<Rightarrow> False | Some x \<Rightarrow> x \<noteq> 0)"

text \<open>
  An instance of the class: its hyperparameters and the three transform hooks, which a
  subclass overrides.  \<open>MRIModel_init\<close> is the base class itself, whose hooks raise.
\<close>

record 'tr MRIModel =
  hparams :: hparams
  train_data_transform :: "error + 'tr"
  val_data_transform :: "error + 'tr"
  test_data_transform :: "error + 'tr"

definition MRIModel_init :: "hparams \<Rightarrow> 'tr MRIModel" where
  "MRIModel_init hp =
     \<lparr>hparams = hp,
      train_data_transform = Inl NotImplementedError,
      val_data_transform = Inl NotImplementedError,
      test_data_transform = Inl NotImplementedError\<rparr>"

definition MRIModel_create_data_loader ::
  "'tr MRIModel \<Rightarrow> 'tr \<Rightarrow> string \<Rightarrow> real option \<Rightarrow> 'tr DataLoader" where
  "MRIModel_create_data_loader self data_transform data_partition sample_rate_arg =
     (let sample_rate = (if truthy sample_rate_arg then sample_rate_arg
                         else hparams.sample_rate (hparams self));
          dataset = SliceData
            (Div (data_path (hparams self)) (challenge (hparams self) @ ''_'' @ data_partition))
            data_transform sample_rate (challenge (hparams self));
          sampler = DistributedSampler dataset
      in DataLoader dataset (batch_size (hparams self)) 8 True sampler)"



definition test_dataloader :: "'tr MRIModel \<Rightarrow> error + 'tr DataLoader" where
  "test_dataloader self =
     bindE (test_data_transform self)
       (\<lambda>tr. Inr (MRIModel_create_data_loader self tr ''test'' (Some 1)))"

section \<open>Arrays\<close>

text \<open>
  A numpy array is its shape and its elements in row-major order.  Pixel values and
  losses are floats; they are idealised here: a stored pixel is a (finite) real, and a
  computed \<open>float\<close> is \<open>Some\<close> real or \<open>None\<close> for a value that is not finite (the
  \<open>nan\<close> of a division 0/0 or of the mean of an empty list, which numpy returns with a
  warning and without raising).  Rounding is not modelled.
\<close>

datatype 'a ndarray = NDArray (shape: "nat list") (data: "'a list")

type_synonym float = "real option"

text \<open>\<open>a[i]\<close> for an index \<open>i \<ge> 0\<close>: the \<open>i\<close>-th slice along the first axis.\<close>

definition item :: "'a ndarray \<Rightarrow> nat \<Rightarrow> 'a ndarray" where
  "item a i =
     NDArray (tl (shape a))
       (take (prod_list (tl (shape a))) (drop (i * prod_list (tl (shape a))) (data a)))"

definition getitem :: "'a ndarray \<Rightarrow> nat \<Rightarrow> error + 'a ndarray" where
  "getitem a i =
     (case shape a of [] \<Rightarrow> Inl IndexError
      | n # sh \<Rightarrow> if i < n then Inr (item a i) else Inl IndexError)"







definition np_abs :: "float ndarray \<Rightarrow> float ndarray" where
  "np_abs a = NDArray (shape a) (map (map_option abs) (data a))"

text \<open>\<open>np.stack\<close> needs at least one array, and all arrays of one shape.\<close>

definition np_stack :: "'a ndarray list \<Rightarrow> error + 'a ndarray" where
  "np_stack xs =
     (case xs of [] \<Rightarrow> Inl ValueError
      | x # _ \<Rightarrow>
          if list_all (\<lambda>y. shape y = shape x) xs
          then Inr (NDArray (length xs # shape x) (concat (map data xs)))
          else Inl ValueError)"





text \<open>
  \<open>np.mean\<close> of a list of floats: \<open>nan\<close> for the empty list, otherwise the sum divided
  by the number of values.
\<close>

definition np_mean :: "float list \<Rightarrow> float" where
  "np_mean xs =
     (if xs = [] then None
      else if list_all (\<lambda>x. x \<noteq> None) xs
      then Some (sum_list (map the xs) / real (length xs))
      else None)"

section \<open>Python containers\<close>


text \<open>
  A \<open>defaultdict(list)\<close> is an association list in the order in which the keys were
  inserted, which is the order a Python dictionary iterates in.
\<close>

fun dd_append :: "('k \<times> 'v list) list \<Rightarrow> 'k \<Rightarrow> 'v \<Rightarrow> ('k \<times> 'v list) list" where
  "dd_append [] k v = [(k, [v])]"
| "dd_append ((k', vs) # d) k v =
     (if k' = k then (k', vs @ [v]) # d else (k', vs) # dd_append d k v)"

definition dd_get :: "('k \<times> 'v list) list \<Rightarrow> 'k \<Rightarrow> 'v list" where
  "dd_get d k = (case map_of d k of None \<Rightarrow> [] | Some vs \<Rightarrow> vs)"

text \<open>
  \<open>sorted\<close> on a list of tuples \<open>(slice, array)\<close>.  Python compares the tuples by the
  slice indices; when these are equal it goes on to the arrays, and asks numpy for the
  truth value of their comparison.  That raises \<open>ValueError\<close> unless both arrays have a
  single element, which then decides.  (For arrays without elements numpy's answer
  depends on its version; the model raises.)  \<open>sorted\<close> is a stable comparison sort
  that only asks \<open>x < y\<close>: insertion from the left, each element behind its equals.
\<close>

definition array_less :: "real ndarray \<Rightarrow> real ndarray \<Rightarrow> error + bool" where
  "array_less a b =
     (case data a of
        [x] \<Rightarrow> (case data b of [y] \<Rightarrow> Inr (x < y) | _ \<Rightarrow> Inl ValueError)
      | _ \<Rightarrow> Inl ValueError)"

definition tuple_less :: "int \<times> real ndarray \<Rightarrow> int \<times> real ndarray \<Rightarrow> error + bool" where
  "tuple_less x y =
     (if fst x = fst y then array_less (snd x) (snd y) else Inr (fst x < fst y))"

fun insort_py :: "('a \<Rightarrow> 'a \<Rightarrow> error + bool) \<Rightarrow> 'a \<Rightarrow> 'a list \<Rightarrow> error + 'a list" where
  "insort_py lt x [] = Inr [x]"
| "insort_py lt x (y # ys) =
     bindE (lt x y)
       (\<lambda>b. if b then Inr (x # y # ys)
            else bindE (insort_py lt x ys) (\<lambda>zs. Inr (y # zs)))"

fun sorted_from :: "('a \<Rightarrow> 'a \<Rightarrow> error + bool) \<Rightarrow> 'a list \<Rightarrow> 'a list \<Rightarrow> error + 'a list" where
  "sorted_from lt acc [] = Inr acc"
| "sorted_from lt acc (x # xs) = bindE (insort_py lt x acc) (\<lambda>acc'. sorted_from lt acc' xs)"

definition sorted_py :: "('a \<Rightarrow> 'a \<Rightarrow> error + bool) \<Rightarrow> 'a list \<Rightarrow> error + 'a list" where
  "sorted_py lt xs = sorted_from lt [] xs"

section \<open>Validation and test logs\<close>

text \<open>
  One log is what a validation or test step returned for one batch: the batch loss, the
  file name and slice index of every sample, and the arrays of the reconstructions and
  of the targets, whose first axis runs over the samples.  \<open>test_end\<close> reads the file
  names, the slice indices and the outputs only.
\<close>

record val_log =
  val_loss :: float
  fname :: "string list"
  slice :: "int list"
  output' :: "real ndarray"
  target :: "real ndarray"

text \<open>
  The metric functions of \<open>common.evaluate\<close> are not part of this file: they are
  parameters, and may fail with a message.
\<close>

record evaluate =
  nmse :: "real ndarray \<Rightarrow> real ndarray \<Rightarrow> string + float"
  ssim :: "real ndarray \<Rightarrow> real ndarray \<Rightarrow> string + float"
  psnr :: "real ndarray \<Rightarrow> real ndarray \<Rightarrow> string + float"

definition external :: "string + 'a \<Rightarrow> error + 'a" where
  "external r = (case r of Inl msg \<Rightarrow> Inl (External msg) | Inr x \<Rightarrow> Inr x)"

text \<open>
  What the methods do to the world: the images added to the logger (each the call
  \<open>make_grid(images, nrow=4, pad_value=1)\<close> under its tag), the dictionaries printed,
  and the calls of \<open>save_reconstructions(reconstructions, out_dir)\<close>.
\<close>

datatype grid = Make_grid (images: "float ndarray") (nrow: nat) (pad_value: real)

datatype pyval = Float float | Dict "(string \<times> float) list"

record world =
  logger :: "(string \<times> grid) list"
  stdout :: "(string \<times> float) list list"
  saved :: "((string \<times> real ndarray) list \<times> path) list"

type_synonym entries = "(string \<times> (int \<times> real ndarray) list) list"

subsection \<open>\<open>_evaluate\<close>\<close>

text \<open>
  Lines 63 to 65: the loop over \<open>enumerate(zip(log['fname'], log['slice']))\<close>, from
  index \<open>i\<close> on.
\<close>

fun evaluate_slices ::
  "val_log \<Rightarrow> nat \<Rightarrow> (string \<times> int) list \<Rightarrow> entries \<times> entries \<Rightarrow> error + entries \<times> entries" where
  "evaluate_slices lg i [] (outputs, targets) = Inr (outputs, targets)"
| "evaluate_slices lg i ((name, sl) # rest) (outputs, targets) =
     bindE (getitem (output' lg) i) (\<lambda>out.
     bindE (getitem (target lg) i) (\<lambda>tgt.
       evaluate_slices lg (Suc i) rest
         (dd_append outputs name (sl, out), dd_append targets name (sl, tgt))))"

text \<open>Lines 61 to 65: the loop over the logs.\<close>

fun evaluate_logs ::
  "val_log list \<Rightarrow> float list \<times> entries \<times> entries \<Rightarrow> error + float list \<times> entries \<times> entries" where
  "evaluate_logs [] st = Inr st"
| "evaluate_logs (lg # logs) (losses, outputs, targets) =
     bindE (evaluate_slices lg 0 (zip (fname lg) (slice lg)) (outputs, targets))
       (\<lambda>(outputs', targets'). evaluate_logs logs (losses @ [val_loss lg], outputs', targets'))"

text \<open>
  The expression \<open>np.stack([out for _, out in sorted(outputs[fname])])\<close> of lines 68, 69
  and 109.
\<close>

definition volume :: "(int \<times> real ndarray) list \<Rightarrow> error + real ndarray" where
  "volume slices = bindE (sorted_py tuple_less slices) (\<lambda>s. np_stack (map snd s))"

text \<open>Lines 67 to 72: the loop over the file names of \<open>outputs\<close>.\<close>

fun evaluate_fnames ::
  "evaluate \<Rightarrow> entries \<Rightarrow> entries \<Rightarrow> string list \<Rightarrow> float list \<times> float list \<times> float list
     \<Rightarrow> error + float list \<times> float list \<times> float list" where
  "evaluate_fnames ev outputs targets [] acc = Inr acc"
| "evaluate_fnames ev outputs targets (name # rest) (nmses, ssims, psnrs) =
     bindE (volume (dd_get outputs name)) (\<lambda>output.
     bindE (volume (dd_get targets name)) (\<lambda>target.
     bindE (external (nmse ev target output)) (\<lambda>a.
     bindE (external (ssim ev target output)) (\<lambda>b.
     bindE (external (psnr ev target output)) (\<lambda>c.
       evaluate_fnames ev outputs targets rest (nmses @ [a], ssims @ [b], psnrs @ [c]))))))"

text \<open>Lines 58 to 73: the dictionary \<open>metrics\<close> of the means.\<close>

definition evaluate_metrics :: "evaluate \<Rightarrow> val_log list \<Rightarrow> error + (string \<times> float) list" where
  "evaluate_metrics ev val_logs =
     bindE (evaluate_logs val_logs ([], [], [])) (\<lambda>(losses, outputs, targets).
     bindE (evaluate_fnames ev outputs targets (map fst outputs) ([], [], []))
       (\<lambda>(nmses, ssims, psnrs).
          Inr [(''val_loss'', np_mean losses), (''nmse'', np_mean nmses),
               (''ssim'', np_mean ssims), (''psnr'', np_mean psnrs)]))"

definition MRIModel_evaluate ::
  "evaluate \<Rightarrow> val_log list \<Rightarrow> world \<Rightarrow> (error + (string \<times> pyval) list) \<times> world" where
  "MRIModel_evaluate ev val_logs w =
     (case evaluate_metrics ev val_logs of
        Inl e \<Rightarrow> (Inl e, w)
      | Inr metrics \<Rightarrow>
          (Inr ((''log'', Dict metrics) # map (\<lambda>(k, v). (k, Float v)) metrics),
           w\<lparr>stdout := stdout w @ [metrics]\<rparr>))"

subsection \<open>\<open>_visualize\<close>\<close>





subsection \<open>\<open>validation_end\<close> and \<open>test_end\<close>\<close>


text \<open>Lines 106 and 107, from index \<open>i\<close> on, and lines 105 to 107.\<close>

fun test_slices :: "val_log \<Rightarrow> nat \<Rightarrow> (string \<times> int) list \<Rightarrow> entries \<Rightarrow> error + entries" where
  "test_slices lg i [] outputs = Inr outputs"
| "test_slices lg i ((name, sl) # rest) outputs =
     bindE (getitem (output' lg) i) (\<lambda>out.
       test_slices lg (Suc i) rest (dd_append outputs name (sl, out)))"

fun test_logs :: "val_log list \<Rightarrow> entries \<Rightarrow> error + entries" where
  "test_logs [] outputs = Inr outputs"
| "test_logs (lg # logs) outputs =
     bindE (test_slices lg 0 (zip (fname lg) (slice lg)) outputs) (\<lambda>outputs'.
       test_logs logs outputs')"








definition first_seen :: "'a list \<Rightarrow> 'a list" where
  "first_seen xs = rev (remdups (rev xs))"

definition group_by_fname :: "(string \<times> 'v) list \<Rightarrow> (string \<times> 'v list) list" where
  "group_by_fname es =
     map (\<lambda>f. (f, map snd (filter (\<lambda>e. fst e = f) es))) (first_seen (map fst es))"

definition per_slice ::
  "(val_log \<Rightarrow> real ndarray) \<Rightarrow> val_log \<Rightarrow> (string \<times> int \<times> real ndarray) list" where
  "per_slice arr lg =
     map (\<lambda>(i, f, s). (f, s, item (arr lg) i)) (enumerate 0 (zip (fname lg) (slice lg)))"

definition all_slices ::
  "(val_log \<Rightarrow> real ndarray) \<Rightarrow> val_log list \<Rightarrow> (string \<times> int \<times> real ndarray) list" where
  "all_slices arr logs = concat (map (per_slice arr) logs)"












section \<open>Data loaders\<close>

text \<open>
  C6.  Every data loader built by \<open>_create_data_loader\<close> hands sampling and batching to
  the framework: the dataset is wrapped in a \<open>DistributedSampler\<close>, and the
  \<open>DataLoader\<close> is built over that same dataset with batch size \<open>hparams.batch_size\<close>,
  8 worker processes and pinned memory, whatever the arguments are.
\<close>

theorem create_data_loader_delegates:
  "sampler (MRIModel_create_data_loader self tr part sr) =
     DistributedSampler (dataset (MRIModel_create_data_loader self tr part sr))
   \<and> dl_batch_size (MRIModel_create_data_loader self tr part sr) = batch_size (hparams self)
   \<and> num_workers (MRIModel_create_data_loader self tr part sr) = 8
   \<and> pin_memory (MRIModel_create_data_loader self tr part sr)
   \<and> sd_root (dataset (MRIModel_create_data_loader self tr part sr)) =
       Div (data_path (hparams self)) (challenge (hparams self) @ ''_'' @ part)
   \<and> transform (dataset (MRIModel_create_data_loader self tr part sr)) = tr
   \<and> sd_challenge (dataset (MRIModel_create_data_loader self tr part sr)) =
       challenge (hparams self)"
  by (simp add: MRIModel_create_data_loader_def Let_def)

text \<open>
  C7.  \<open>test_dataloader\<close> builds its dataset with sample rate exactly 1.0 whatever
  \<open>hparams.sample_rate\<close> is (whenever the overridden \<open>test_data_transform\<close> returns a
  transform), and \<open>_create_data_loader\<close> replaces a falsy \<open>sample_rate\<close> argument
  (\<open>None\<close> or 0) by \<open>hparams.sample_rate\<close>, so that an explicit 0 is not kept.
\<close>

theorem test_dataloader_sample_rate:
  "(test_data_transform self = Inr tr \<longrightarrow>
      (\<exists>dl. test_dataloader self = Inr dl \<and> sd_sample_rate (dataset dl) = Some 1))
   \<and> sd_sample_rate (dataset (MRIModel_create_data_loader self tr' part None)) =
       hparams.sample_rate (hparams self)
   \<and> sd_sample_rate (dataset (MRIModel_create_data_loader self tr' part (Some 0))) =
       hparams.sample_rate (hparams self)
   \<and> (r \<noteq> 0 \<longrightarrow>
       sd_sample_rate (dataset (MRIModel_create_data_loader self tr' part (Some r))) = Some r)"
  by (simp add: test_dataloader_def bindE_def MRIModel_create_data_loader_def Let_def
      truthy_def)

theorem test_dataloader_sample_rate_witness:
  "(\<exists>dl. test_dataloader
       ((MRIModel_init \<lparr>data_path = Path ''data'', challenge = ''singlecoil'',
           sample_rate = Some (1 / 4), batch_size = 16, exp_dir = Path ''exp'',
           exp' = ''unet''\<rparr>) \<lparr>test_data_transform := Inr ()\<rparr>) = Inr dl
      \<and> sd_sample_rate (dataset dl) = Some 1)
   \<and> sd_sample_rate (dataset (MRIModel_create_data_loader
       ((MRIModel_init \<lparr>data_path = Path ''data'', challenge = ''singlecoil'',
           sample_rate = Some (1 / 4), batch_size = 16, exp_dir = Path ''exp'',
           exp' = ''unet''\<rparr>) \<lparr>test_data_transform := Inr ()\<rparr>) () ''val'' (Some 0)))
       = Some (1 / 4)
   \<and> sd_sample_rate (dataset (MRIModel_create_data_loader
       ((MRIModel_init \<lparr>data_path = Path ''data'', challenge = ''singlecoil'',
           sample_rate = Some (1 / 4), batch_size = 16, exp_dir = Path ''exp'',
           exp' = ''unet''\<rparr>) \<lparr>test_data_transform := Inr ()\<rparr>) () ''val'' (Some (1 / 2))))
       = Some (1 / 2)"
  using test_dataloader_sample_rate
    [of "(MRIModel_init \<lparr>data_path = Path ''data'', challenge = ''singlecoil'',
           sample_rate = Some (1 / 4), batch_size = 16, exp_dir = Path ''exp'',
           exp' = ''unet''\<rparr>) \<lparr>test_data_transform := Inr ()\<rparr>" "()" "()" "''val''" "1 / 2"]
  by (simp add: MRIModel_init_def)

lemma bindE_Inl [simp]: "bindE (Inl e) f = Inl e"
  by (simp add: bindE_def)

lemma bindE_Inr [simp]: "bindE (Inr x) f = f x"
  by (simp add: bindE_def)

lemma bindE_eq_Inr: "bindE m f = Inr y \<longleftrightarrow> (\<exists>x. m = Inr x \<and> f x = Inr y)"
  by (cases m) simp_all






lemma getitem_Inr: "getitem a i = Inr v \<Longrightarrow> v = item a i \<and> shape a \<noteq> [] \<and> i < hd (shape a)"
  by (auto simp: getitem_def split: list.splits if_splits)

lemma shape_item [simp]: "shape (item a i) = tl (shape a)"
  by (simp add: item_def)












lemma first_seen_snoc:
  "first_seen (xs @ [k]) = (if k \<in> set xs then first_seen xs else first_seen xs @ [k])"
  by (simp add: first_seen_def)

lemma distinct_first_seen [simp]: "distinct (first_seen xs)"
  by (simp add: first_seen_def)

lemma set_first_seen [simp]: "set (first_seen xs) = set xs"
  by (simp add: first_seen_def)

lemma dd_append_map:
  "distinct ks \<Longrightarrow>
   dd_append (map (\<lambda>f. (f, g f)) ks) k v =
     (if k \<in> set ks then map (\<lambda>f. (f, if f = k then g f @ [v] else g f)) ks
      else map (\<lambda>f. (f, g f)) ks @ [(k, [v])])"
  by (induction ks) auto

lemma group_by_fname_snoc:
  "dd_append (group_by_fname es) k v = group_by_fname (es @ [(k, v)])"
proof (cases "k \<in> fst ` set es")
  case True
  then show ?thesis
    by (auto simp: group_by_fname_def dd_append_map first_seen_snoc)
next
  case False
  then have "filter (\<lambda>e. fst e = k) es = []"
    by (auto simp: filter_empty_conv)
  moreover have "\<And>f. f \<in> fst ` set es \<Longrightarrow> f \<noteq> k" using False by auto
  ultimately show ?thesis using False
    by (auto simp: group_by_fname_def dd_append_map first_seen_snoc)
qed

lemma group_by_fname_Nil [simp]: "group_by_fname [] = []"
  by (simp add: group_by_fname_def first_seen_def)

lemma evaluate_slices_Inr:
  "evaluate_slices lg i zs (group_by_fname eo, group_by_fname et) = Inr (outs, tgts) \<Longrightarrow>
     outs = group_by_fname (eo @ map (\<lambda>(j, f, s). (f, s, item (output' lg) j)) (enumerate i zs)) \<and>
     tgts = group_by_fname (et @ map (\<lambda>(j, f, s). (f, s, item (target lg) j)) (enumerate i zs))"
proof (induction zs arbitrary: i eo et)
  case Nil
  then show ?case by simp
next
  case (Cons z zs)
  obtain f s where z: "z = (f, s)" by (cases z)
  from Cons.prems obtain out tgt where
    o: "getitem (output' lg) i = Inr out" and t: "getitem (target lg) i = Inr tgt" and
    run: "evaluate_slices lg (Suc i) zs
       (dd_append (group_by_fname eo) f (s, out), dd_append (group_by_fname et) f (s, tgt))
       = Inr (outs, tgts)"
    by (auto simp: z bindE_eq_Inr)
  have "out = item (output' lg) i" "tgt = item (target lg) i"
    using o t by (auto dest: getitem_Inr)
  with Cons.IH [of "Suc i" "eo @ [(f, s, out)]" "et @ [(f, s, tgt)]"] run
  show ?case by (simp add: group_by_fname_snoc z)
qed

lemma evaluate_logs_Inr:
  "evaluate_logs logs (losses, group_by_fname eo, group_by_fname et) = Inr (losses', outs, tgts) \<Longrightarrow>
     losses' = losses @ map val_loss logs \<and>
     outs = group_by_fname (eo @ all_slices output' logs) \<and>
     tgts = group_by_fname (et @ all_slices target logs)"
proof (induction logs arbitrary: losses eo et)
  case Nil
  then show ?case by (simp add: all_slices_def)
next
  case (Cons lg logs)
  from Cons.prems obtain o1 t1 where
    sl: "evaluate_slices lg 0 (zip (fname lg) (slice lg)) (group_by_fname eo, group_by_fname et)
          = Inr (o1, t1)" and
    run: "evaluate_logs logs (losses @ [val_loss lg], o1, t1) = Inr (losses', outs, tgts)"
    by (auto simp: bindE_eq_Inr)
  from evaluate_slices_Inr [OF sl]
  have o1: "o1 = group_by_fname (eo @ per_slice output' lg)"
    and t1: "t1 = group_by_fname (et @ per_slice target lg)"
    by (simp_all add: per_slice_def)
  from Cons.IH [OF run [unfolded o1 t1]]
  show ?case by (simp add: all_slices_def)
qed

lemma test_slices_Inr:
  "test_slices lg i zs (group_by_fname eo) = Inr outs \<Longrightarrow>
     outs = group_by_fname (eo @ map (\<lambda>(j, f, s). (f, s, item (output' lg) j)) (enumerate i zs))"
proof (induction zs arbitrary: i eo)
  case Nil
  then show ?case by simp
next
  case (Cons z zs)
  obtain f s where z: "z = (f, s)" by (cases z)
  from Cons.prems obtain out where
    o: "getitem (output' lg) i = Inr out" and
    run: "test_slices lg (Suc i) zs (dd_append (group_by_fname eo) f (s, out)) = Inr outs"
    by (auto simp: z bindE_eq_Inr)
  have "out = item (output' lg) i"
    using o by (auto dest: getitem_Inr)
  with Cons.IH [of "Suc i" "eo @ [(f, s, out)]"] run
  show ?case by (simp add: group_by_fname_snoc z)
qed

lemma test_logs_Inr:
  "test_logs logs (group_by_fname eo) = Inr outs \<Longrightarrow>
     outs = group_by_fname (eo @ all_slices output' logs)"
proof (induction logs arbitrary: eo)
  case Nil
  then show ?case by (simp add: all_slices_def)
next
  case (Cons lg logs)
  from Cons.prems obtain o1 where
    sl: "test_slices lg 0 (zip (fname lg) (slice lg)) (group_by_fname eo) = Inr o1" and
    run: "test_logs logs o1 = Inr outs"
    by (auto simp: bindE_eq_Inr)
  from test_slices_Inr [OF sl]
  have o1: "o1 = group_by_fname (eo @ per_slice output' lg)"
    by (simp_all add: per_slice_def)
  from Cons.IH [OF run [unfolded o1]]
  show ?case by (simp add: all_slices_def)
qed

lemma insort_py_mset: "insort_py lt x ys = Inr zs \<Longrightarrow> mset zs = add_mset x (mset ys)"
proof (induction ys arbitrary: zs)
  case Nil
  then show ?case by auto
next
  case (Cons y ys)
  then show ?case by (auto simp: bindE_eq_Inr split: if_splits)
qed

lemma tuple_less_Inr: "tuple_less x y = Inr b \<Longrightarrow> (b \<longrightarrow> fst x \<le> fst y) \<and> (\<not> b \<longrightarrow> fst y \<le> fst x)"
  by (auto simp: tuple_less_def split: if_splits)

lemma insort_py_sorted:
  "insort_py tuple_less x ys = Inr zs \<Longrightarrow> sorted (map fst ys) \<Longrightarrow> sorted (map fst zs)"
proof (induction ys arbitrary: zs)
  case Nil
  then show ?case by auto
next
  case (Cons y ys)
  from Cons.prems(1) obtain b where b: "tuple_less x y = Inr b"
    and rest: "(if b then Inr (x # y # ys)
                else bindE (insort_py tuple_less x ys) (\<lambda>zs. Inr (y # zs))) = Inr zs"
    by (auto simp: bindE_eq_Inr)
  show ?case
  proof (cases b)
    case True
    then have "zs = x # y # ys" using rest by simp
    moreover have "fst x \<le> fst y" using tuple_less_Inr [OF b] True by simp
    ultimately show ?thesis using Cons.prems(2) by auto
  next
    case False
    then obtain zs' where zs': "insort_py tuple_less x ys = Inr zs'" and zs: "zs = y # zs'"
      using rest by (auto simp: bindE_eq_Inr)
    have "sorted (map fst zs')" using Cons.IH [OF zs'] Cons.prems(2) by simp
    moreover have "set zs' = insert x (set ys)"
      using insort_py_mset [OF zs'] by (metis set_mset_add_mset_insert set_mset_mset)
    moreover have "fst y \<le> fst x" using tuple_less_Inr [OF b] False by simp
    ultimately show ?thesis using Cons.prems(2) zs by auto
  qed
qed

lemma sorted_from_Inr:
  "sorted_from tuple_less acc xs = Inr zs \<Longrightarrow> sorted (map fst acc) \<Longrightarrow>
     sorted (map fst zs) \<and> mset zs = mset acc + mset xs"
proof (induction xs arbitrary: acc)
  case Nil
  then show ?case by simp
next
  case (Cons x xs)
  from Cons.prems(1) obtain acc' where a: "insort_py tuple_less x acc = Inr acc'"
    and run: "sorted_from tuple_less acc' xs = Inr zs"
    by (auto simp: bindE_eq_Inr)
  from Cons.IH [OF run insort_py_sorted [OF a Cons.prems(2)]] insort_py_mset [OF a]
  show ?case by simp
qed

lemma sorted_py_Inr:
  "sorted_py tuple_less xs = Inr zs \<Longrightarrow> sorted (map fst zs) \<and> mset zs = mset xs"
  using sorted_from_Inr [of "[]" xs zs] by (simp add: sorted_py_def)

lemma insort_py_total:
  "fst x \<notin> fst ` set ys \<Longrightarrow> \<exists>zs. insort_py tuple_less x ys = Inr zs"
proof (induction ys)
  case Nil
  then show ?case by simp
next
  case (Cons y ys)
  then obtain zs where "insort_py tuple_less x ys = Inr zs" by auto
  moreover have "tuple_less x y = Inr (fst x < fst y)"
    using Cons.prems by (simp add: tuple_less_def)
  ultimately show ?case by simp
qed

lemma sorted_from_total:
  "distinct (map fst (acc @ xs)) \<Longrightarrow> \<exists>zs. sorted_from tuple_less acc xs = Inr zs"
proof (induction xs arbitrary: acc)
  case Nil
  then show ?case by simp
next
  case (Cons x xs)
  have "fst x \<notin> fst ` set acc" using Cons.prems by auto
  then obtain acc' where a: "insort_py tuple_less x acc = Inr acc'"
    using insort_py_total by blast
  have "mset (map fst acc') = mset (map fst (acc @ [x]))"
    using insort_py_mset [OF a] by simp
  then have "mset (map fst (acc' @ xs)) = mset (map fst (acc @ x # xs))" by simp
  then have "distinct (map fst (acc' @ xs))"
    using Cons.prems by (metis mset_eq_imp_distinct_iff)
  from Cons.IH [OF this] a show ?case by simp
qed

lemma filter_key_singleton:
  "distinct (map f xs) \<Longrightarrow> k \<in> set xs \<Longrightarrow> filter (\<lambda>x. f k = f x) xs = [k]"
proof (induction xs)
  case Nil
  then show ?case by simp
next
  case (Cons x xs)
  show ?case
  proof (cases "k = x")
    case True
    have "filter (\<lambda>y. f x = f y) xs = []"
      using Cons.prems(1) by (auto simp: filter_empty_conv)
    then show ?thesis using True by simp
  next
    case False
    then have "k \<in> set xs" using Cons.prems(2) by simp
    moreover have "f x \<notin> f ` set xs" using Cons.prems(1) by simp
    then have "f k \<noteq> f x" using \<open>k \<in> set xs\<close> by (metis imageI)
    ultimately show ?thesis using Cons by simp
  qed
qed

lemma sorted_py_distinct:
  assumes "distinct (map fst xs)"
  shows "sorted_py tuple_less xs = Inr (sort_key fst xs)"
proof -
  obtain zs where zs: "sorted_py tuple_less xs = Inr zs"
    using sorted_from_total [of "[]" xs] assms by (auto simp: sorted_py_def)
  from sorted_py_Inr [OF zs] have s: "sorted (map fst zs)" and m: "mset zs = mset xs"
    by simp_all
  have d: "distinct (map fst zs)"
    using assms m by (metis mset_eq_imp_distinct_iff mset_map)
  have "sort_key fst xs = zs"
  proof (rule properties_for_sort_key [OF m _ s])
    fix k assume k: "k \<in> set zs"
    then have kx: "k \<in> set xs" using m by (metis set_mset_mset)
    show "filter (\<lambda>x. fst k = fst x) zs = filter (\<lambda>x. fst k = fst x) xs"
      using filter_key_singleton [OF d k] filter_key_singleton [OF assms kx] by simp
  qed
  then show ?thesis using zs by simp
qed




lemma shape_np_abs [simp]: "shape (np_abs a) = shape a"
  by (simp add: np_abs_def)






lemma evaluate_world_Inl:
  "MRIModel_evaluate ev val_logs w = (Inl e, w') \<Longrightarrow> w' = w"
  by (auto simp: MRIModel_evaluate_def split: sum.splits)


































end
